theory Spec2Isabelle
  imports Main "HOL-Library.Sublist"
begin

section \<open>Text and bytes\<close>

text \<open>
  Python \<open>str\<close> values are modelled by their UTF-8 encoding and \<open>bytes\<close> values by
  their bytes, both as \<^typ>\<open>char list\<close>. Substring search, prefix and suffix tests on
  the encoding agree with the same tests on code points. The character classes
  (\<open>\s\<close>, \<open>\d\<close>, \<open>\w\<close>, \<open>[A-Z]\<close>), \<open>str.strip\<close> and \<open>str.lower\<close> are modelled on
  the ASCII range: a byte of a non-ASCII character belongs to no class and has no
  case. For \<open>bytes.lower\<close> and \<open>[A-Z]\<close> that is what Python does.
\<close>

type_synonym bytes = "char list"

definition upper_letters :: string where
  "upper_letters = ''ABCDEFGHIJKLMNOPQRSTUVWXYZ''"

definition lower_letters :: string where
  "lower_letters = ''abcdefghijklmnopqrstuvwxyz''"

definition is_upper :: "char \<Rightarrow> bool" where
  "is_upper c = (c \<in> set upper_letters)"

definition is_digit :: "char \<Rightarrow> bool" where
  "is_digit c = (c \<in> set ''0123456789'')"

definition is_word :: "char \<Rightarrow> bool" where
  "is_word c = (is_upper c \<or> c \<in> set lower_letters \<or> is_digit c \<or> c = CHR ''_'')"

definition is_space :: "char \<Rightarrow> bool" where
  "is_space c = (c \<in> set [CHR 0x09, CHR 0x0A, CHR 0x0B, CHR 0x0C, CHR 0x0D,
                           CHR 0x1C, CHR 0x1D, CHR 0x1E, CHR 0x1F, CHR 0x20])"

definition char_lower :: "char \<Rightarrow> char" where
  "char_lower c = (case map_of (zip upper_letters lower_letters) c of
                     Some d \<Rightarrow> d | None \<Rightarrow> c)"

definition lower :: "string \<Rightarrow> string" where
  "lower s = map char_lower s"

definition strip :: "string \<Rightarrow> string" where
  "strip s = rev (dropWhile is_space (rev (dropWhile is_space s)))"

text \<open>\<open>needle in hay\<close>.\<close>

fun contains :: "string \<Rightarrow> string \<Rightarrow> bool" where
  "contains needle [] = (needle = [])"
| "contains needle (c # cs) = (prefix needle (c # cs) \<or> contains needle cs)"

text \<open>\<open>s.split(sep, 1)\<close> for a non-empty separator: the text before and after the
  first occurrence of \<open>sep\<close>, or \<open>None\<close> when \<open>sep\<close> does not occur (Python then
  returns the one-element list \<open>[s]\<close>).\<close>

fun split_once :: "string \<Rightarrow> string \<Rightarrow> (string \<times> string) option" where
  "split_once sep [] = None"
| "split_once sep (c # cs) =
     (if prefix sep (c # cs) then Some ([], drop (length sep) (c # cs))
      else map_option (\<lambda>(a, b). (c # a, b)) (split_once sep cs))"

text \<open>\<open>sep.join(parts)\<close>.\<close>

fun join :: "string \<Rightarrow> string list \<Rightarrow> string" where
  "join sep [] = []"
| "join sep [x] = x"
| "join sep (x # y # ys) = x @ sep @ join sep (y # ys)"

text \<open>A value of type \<open>bytes | str\<close>, and Python's exceptions as values.\<close>

datatype doc_content = Bytes bytes | Str string

datatype py_error = UnboundLocalError | AttributeError | LibraryError string

section \<open>Format detection (\<open>extract_document_text\<close>, lines 243 to 274)\<close>

text \<open>
  \<open>format_type\<close> is \<open>None\<close>, \<open>'pdf'\<close> or \<open>'epub'\<close>. The table behind
  \<open>mimetypes.guess_type\<close> belongs to the Python installation, so it is a parameter:
  \<open>guess_type url\<close> is the MIME type the library returns for \<open>url\<close>, if any.
\<close>

definition format_from_hint :: "string option \<Rightarrow> string option" where
  "format_from_hint file_format =
     (case file_format of
        None \<Rightarrow> None
      | Some f \<Rightarrow>
          if f = [] then None
          else let format_lower = lower f in
            if contains ''pdf'' format_lower then Some ''pdf''
            else if contains ''epub'' format_lower \<or> contains ''ebook'' format_lower
            then Some ''epub''
            else None)"

definition format_from_url ::
  "(string \<Rightarrow> string option) \<Rightarrow> string option \<Rightarrow> string option" where
  "format_from_url guess_type url =
     (case url of
        None \<Rightarrow> None
      | Some u \<Rightarrow>
          if u = [] then None
          else let url_lower = lower u in
            if suffix ''.pdf'' url_lower then Some ''pdf''
            else if suffix ''.epub'' url_lower then Some ''epub''
            else let mime_type = guess_type u in
              if mime_type = Some ''application/pdf'' then Some ''pdf''
              else if mime_type = Some ''application/epub+zip'' then Some ''epub''
              else None)"

definition format_from_content :: "doc_content \<Rightarrow> string option" where
  "format_from_content doc =
     (case doc of
        Str _ \<Rightarrow> None
      | Bytes b \<Rightarrow>
          if prefix ''%PDF'' b then Some ''pdf''
          else if prefix ''PK'' b \<and> contains ''epub'' (lower (take 1024 b)) then Some ''epub''
          else None)"

definition detect_format ::
  "(string \<Rightarrow> string option) \<Rightarrow> doc_content \<Rightarrow> string option \<Rightarrow> string option
     \<Rightarrow> string option" where
  "detect_format guess_type doc file_format url =
     (let format_type = format_from_hint file_format;
          format_type = (if format_type = None then format_from_url guess_type url
                         else format_type);
          format_type = (if format_type = None then format_from_content doc
                         else format_type)
      in format_type)"

section \<open>The parsed document\<close>

text \<open>
  \<open>BeautifulSoup(markup, 'html.parser')\<close> is a library call; its result is modelled as
  a tree. \<open>Text\<close> is a string that \<open>get_text\<close> reads (a \<open>NavigableString\<close> or
  \<open>CData\<close>), \<open>Comment\<close> any other string node (comments, declarations, doctypes),
  \<open>Elem name attrs contents\<close> a \<open>Tag\<close>. The \<open>BeautifulSoup\<close> object itself is the
  root, an element named \<open>[document]\<close>. A tag inside the document is addressed by
  the child indices that lead to it from the root, and carried together with its
  node.
\<close>

datatype node = Text string | Comment string | Elem string "(string \<times> string) list" "node list"

type_synonym path = "nat list"
type_synonym tag = "path \<times> node"

fun node_at :: "node \<Rightarrow> path \<Rightarrow> node option" where
  "node_at n [] = Some n"
| "node_at (Elem name attrs cs) (i # p) = (if i < length cs then node_at (cs ! i) p else None)"
| "node_at (Text s) (i # p) = None"
| "node_at (Comment s) (i # p) = None"

text \<open>\<open>tag.descendants\<close>: every node below a node, in document order, with its path
  relative to that node.\<close>

fun descendants :: "node \<Rightarrow> tag list"
  and descendants_from :: "nat \<Rightarrow> node list \<Rightarrow> tag list" where
  "descendants (Elem name attrs cs) = descendants_from 0 cs"
| "descendants (Text s) = []"
| "descendants (Comment s) = []"
| "descendants_from i [] = []"
| "descendants_from i (c # cs) =
     (([i], c) # map (\<lambda>(p, n). (i # p, n)) (descendants c)) @ descendants_from (Suc i) cs"

definition descendants_of :: "tag \<Rightarrow> tag list" where
  "descendants_of t = map (\<lambda>(q, n). (fst t @ q, n)) (descendants (snd t))"

fun is_named :: "string \<Rightarrow> node \<Rightarrow> bool" where
  "is_named name (Elem name' attrs cs) = (name' = name)"
| "is_named name (Text s) = False"
| "is_named name (Comment s) = False"

fun attr :: "node \<Rightarrow> string \<Rightarrow> string option" where
  "attr (Elem name attrs cs) key = map_of attrs key"
| "attr (Text s) key = None"
| "attr (Comment s) key = None"

text \<open>\<open>tag.find(name)\<close> and \<open>tag.find(name, {key: value})\<close>: the first descendant
  that matches.\<close>

definition find_tag :: "string \<Rightarrow> tag \<Rightarrow> tag option" where
  "find_tag name t = List.find (\<lambda>(p, n). is_named name n) (descendants_of t)"

definition find_with_attr :: "string \<Rightarrow> string \<Rightarrow> string \<Rightarrow> tag \<Rightarrow> tag option" where
  "find_with_attr name key val t =
     List.find (\<lambda>(p, n). is_named name n \<and> attr n key = Some val) (descendants_of t)"

text \<open>\<open>tag.find_all('a', href=True)\<close>.\<close>

definition find_all_links :: "tag \<Rightarrow> tag list" where
  "find_all_links t =
     filter (\<lambda>(p, n). is_named ''a'' n \<and> attr n ''href'' \<noteq> None) (descendants_of t)"

text \<open>\<open>tag.find_parent(name)\<close>: the nearest enclosing element of that name, searched
  from the parent up to the root.\<close>

fun find_parent :: "node \<Rightarrow> string \<Rightarrow> path \<Rightarrow> tag option" where
  "find_parent root name [] = None"
| "find_parent root name (i # p) =
     (let q = butlast (i # p) in
        case node_at root q of
          None \<Rightarrow> None
        | Some n \<Rightarrow> if is_named name n then Some (q, n) else find_parent root name q)"

text \<open>\<open>tag.find_next_sibling(name)\<close>: the first later child of the same parent with
  that name.\<close>

definition find_next_sibling :: "node \<Rightarrow> string \<Rightarrow> path \<Rightarrow> tag option" where
  "find_next_sibling root name p =
     (if p = [] then None
      else case node_at root (butlast p) of
             Some (Elem pname attrs cs) \<Rightarrow>
               List.find (\<lambda>(q, n). is_named name n)
                 (drop (Suc (last p)) (map (\<lambda>(i, c). (butlast p @ [i], c)) (enumerate 0 cs)))
           | _ \<Rightarrow> None)"

text \<open>\<open>tag.find_next(name)\<close>: the first element of that name after the tag in
  document order; the tag's own descendants come first, then the rest of the whole
  document.\<close>

definition find_next :: "node \<Rightarrow> string \<Rightarrow> path \<Rightarrow> tag option" where
  "find_next root name p =
     List.find (\<lambda>(q, n). is_named name n)
       (drop 1 (dropWhile (\<lambda>(q, n). q \<noteq> p) (([], root) # descendants root)))"

text \<open>\<open>tag.get_text(separator, strip=True)\<close>: the stripped, non-empty strings below
  the tag, joined by the separator.\<close>

fun text_of :: "node \<Rightarrow> string list" where
  "text_of (Text s) = [s]"
| "text_of (Comment s) = []"
| "text_of (Elem name attrs cs) = []"

definition get_text :: "string \<Rightarrow> node \<Rightarrow> string" where
  "get_text separator n =
     join separator
       (filter (\<lambda>s. s \<noteq> []) (map strip (concat (map (\<lambda>(p, m). text_of m) (descendants n)))))"


text \<open>\<open>tag.decompose()\<close> on every \<open>script\<close> and \<open>style\<close> element of the tree.\<close>

fun remove_scripts :: "node \<Rightarrow> node" where
  "remove_scripts (Elem name attrs cs) =
     Elem name attrs
       (map remove_scripts
          (filter (\<lambda>c. \<not> is_named ''script'' c \<and> \<not> is_named ''style'' c) cs))"
| "remove_scripts (Text s) = Text s"
| "remove_scripts (Comment s) = Comment s"

section \<open>The libraries the program calls\<close>

text \<open>
  The program's collaborators are parameters of the model, one field each:
  \<^item> \<open>BeautifulSoup markup\<close>: the tree \<open>BeautifulSoup(markup, 'html.parser')\<close> builds;
  \<^item> \<open>tag_str n\<close>: \<open>str(tag)\<close>, the markup bs4 prints for a tag;
  \<^item> \<open>guess_type url\<close>: the first component of \<open>mimetypes.guess_type(url)\<close>;
  \<^item> \<open>PdfReader b\<close>: \<open>PyPDF2.PdfReader(io.BytesIO(b)).pages\<close>, or the exception
    reading them raises; each page is the result of its \<open>extract_text()\<close>, a text or
    an exception;
  \<^item> \<open>read_epub b\<close>: the items of \<open>epub.read_epub(path).get_items()\<close> for a temporary
    file holding \<open>b\<close>, or the exception that writing or reading the file raises;
  \<^item> \<open>http_get url\<close>: the body \<open>response.content\<close> of \<open>client.get(url)\<close> after
    \<open>raise_for_status()\<close>, or \<open>str(e)\<close> of the exception either call raises.
\<close>

datatype epub_item = Item (get_type: nat) (get_content: "py_error + bytes")

record library =
  BeautifulSoup :: "doc_content \<Rightarrow> node"
  tag_str :: "node \<Rightarrow> string"
  guess_type :: "string \<Rightarrow> string option"
  PdfReader :: "bytes \<Rightarrow> py_error + (py_error + string) list"
  read_epub :: "bytes \<Rightarrow> py_error + epub_item list"
  http_get :: "string \<Rightarrow> string + bytes"

section \<open>Result parsing (\<open>parse_search_results\<close>)\<close>

record publication =
  document_number :: string
  title :: string
  document_type :: string
  file_format :: string
  date :: string
  description :: string
  url :: string

text \<open>\<open>re.search(r'(\w{3}\s+\d{1,2},\s+\d{4})', s)\<close>. The classes \<open>\s\<close>, \<open>\d\<close> and
  the comma are disjoint, so at a given start the greedy match is the only one:
  \<open>match_date\<close> is the text matched at the start of \<open>s\<close>, \<open>search_date\<close> the
  leftmost match.\<close>

definition match_date :: "string \<Rightarrow> string option" where
  "match_date s =
     (let w = take 3 s; r1 = drop 3 s;
          sp1 = takeWhile is_space r1; r2 = dropWhile is_space r1;
          d = takeWhile is_digit (take 2 r2); r3 = drop (length d) r2;
          r4 = drop 1 r3;
          sp2 = takeWhile is_space r4; r5 = dropWhile is_space r4;
          y = take 4 r5
      in if length w = 3 \<and> list_all is_word w \<and> sp1 \<noteq> [] \<and> d \<noteq> [] \<and> prefix '','' r3
            \<and> sp2 \<noteq> [] \<and> length y = 4 \<and> list_all is_digit y
         then Some (w @ sp1 @ d @ '','' @ sp2 @ y) else None)"

fun search_date :: "string \<Rightarrow> string option" where
  "search_date [] = None"
| "search_date (c # cs) =
     (case match_date (c # cs) of Some m \<Rightarrow> Some m | None \<Rightarrow> search_date cs)"

text \<open>\<open>re.match(r'^([A-Z]+)', s)\<close>: group 1 of the match, if there is one.\<close>

definition match_upper :: "string \<Rightarrow> string option" where
  "match_upper s = (let g = takeWhile is_upper s in if g = [] then None else Some g)"

text \<open>Lines 70 and 71: the document type of a document number.\<close>

definition document_type_of :: "string \<Rightarrow> string" where
  "document_type_of doc_number =
     (case match_upper doc_number of Some g \<Rightarrow> g | None \<Rightarrow> ''Unknown'')"

text \<open>The separator \<open>' \<emdash> '\<close> of line 65 (an em dash, U+2014, between two spaces).\<close>

definition title_separator :: string where
  "title_separator = [CHR 0x20, CHR 0xE2, CHR 0x80, CHR 0x94, CHR 0x20]"

definition cac_phrase :: string where
  "cac_phrase = ''Common Access Card (CAC) to view it''"

definition cac_sentence :: string where
  "cac_sentence = ''This publication or form requires Common Access Card (CAC) to view it''"

text \<open>Lines 82 to 87: \<open>next_td\<close> for the enclosing cell \<open>description_td\<close>. Line 85
  calls \<open>find_next_sibling\<close> on the result of \<open>find_parent('tr')\<close>, which is \<open>None\<close>
  for a cell outside any row.\<close>

definition next_cell :: "node \<Rightarrow> tag \<Rightarrow> py_error + tag option" where
  "next_cell root description_td =
     (case find_next_sibling root ''td'' (fst description_td) of
        Some next_td \<Rightarrow> Inr (Some next_td)
      | None \<Rightarrow>
          (case find_parent root ''tr'' (fst description_td) of
             None \<Rightarrow> Inl AttributeError
           | Some tr \<Rightarrow>
               (case find_next_sibling root ''tr'' (fst tr) of
                  None \<Rightarrow> Inr None
                | Some next_tr \<Rightarrow> Inr (find_tag ''td'' next_tr))))"

text \<open>Lines 89 to 104: the values of \<open>date_text\<close> and \<open>description\<close>.\<close>

definition cell_fields :: "tag option \<Rightarrow> string \<times> string" where
  "cell_fields next_td =
     (case next_td of
        None \<Rightarrow> ([], [])
      | Some c \<Rightarrow>
          (let full_text = get_text [] (snd c);
               date_text = (case search_date full_text of Some m \<Rightarrow> m | None \<Rightarrow> []);
               description = (if contains cac_phrase full_text then cac_sentence else full_text)
           in (date_text, description)))"

text \<open>The local variables \<open>date_text\<close> and \<open>description\<close> are assigned only inside
  \<open>if description_td:\<close> and live on from one iteration of the loop to the next:
  \<open>None\<close> while they are unbound.\<close>

type_synonym cell_vars = "(string \<times> string) option"

text \<open>Lines 80 to 104.\<close>

definition assign_cell_vars :: "node \<Rightarrow> tag \<Rightarrow> cell_vars \<Rightarrow> py_error + cell_vars" where
  "assign_cell_vars root link vars =
     (case find_parent root ''td'' (fst link) of
        None \<Rightarrow> Inr vars
      | Some description_td \<Rightarrow>
          (case next_cell root description_td of
             Inl e \<Rightarrow> Inl e
           | Inr next_td \<Rightarrow> Inr (Some (cell_fields next_td))))"

definition href :: "tag \<Rightarrow> string" where
  "href link = (case attr (snd link) ''href'' of Some h \<Rightarrow> h | None \<Rightarrow> [])"

text \<open>Lines 56 and 61: the anchors that give a record.\<close>

definition is_publication_link :: "tag \<Rightarrow> bool" where
  "is_publication_link link =
     ((contains ''epubs'' (href link) \<or> contains ''pub/eforms'' (href link))
      \<and> \<not> contains ''Record Details'' (get_text [] (snd link)))"

text \<open>The body of the loop, lines 56 to 116, for one anchor.\<close>

definition parse_link ::
  "library \<Rightarrow> node \<Rightarrow> tag \<Rightarrow> publication list \<times> cell_vars
     \<Rightarrow> py_error + publication list \<times> cell_vars" where
  "parse_link L root link st =
     (if contains ''epubs'' (href link) \<or> contains ''pub/eforms'' (href link) then
        (let title_text = get_text [] (snd link) in
         if contains ''Record Details'' title_text then Inr st
         else
           (let title_parts = split_once title_separator title_text;
                doc_number = (case title_parts of Some (a, b) \<Rightarrow> a | None \<Rightarrow> title_text);
                doc_title = (case title_parts of Some (a, b) \<Rightarrow> b | None \<Rightarrow> []);
                doc_type = document_type_of doc_number;
                fmt = (case find_next root ''span'' (fst link) of
                         None \<Rightarrow> ''pdf''
                       | Some next_span \<Rightarrow>
                           if contains ''font-size:smaller'' (tag_str L (snd next_span))
                           then get_text [] (snd next_span) else ''pdf'')
            in case assign_cell_vars root link (snd st) of
                 Inl e \<Rightarrow> Inl e
               | Inr None \<Rightarrow> Inl UnboundLocalError
               | Inr (Some (date_text, descr)) \<Rightarrow>
                   Inr (fst st @
                        [\<lparr>document_number = doc_number, title = doc_title,
                          document_type = doc_type, file_format = fmt,
                          date = date_text, description = descr,
                          url = (if prefix ''http'' (href link) then href link
                                 else ''https://armypubs.army.mil'' @ href link)\<rparr>],
                        Some (date_text, descr))))
      else Inr st)"

fun parse_links ::
  "library \<Rightarrow> node \<Rightarrow> tag list \<Rightarrow> publication list \<times> cell_vars
     \<Rightarrow> py_error + publication list \<times> cell_vars" where
  "parse_links L root [] st = Inr st"
| "parse_links L root (link # links) st =
     (case parse_link L root link st of
        Inl e \<Rightarrow> Inl e
      | Inr st' \<Rightarrow> parse_links L root links st')"

text \<open>\<open>soup.find('div', {'id': 'MainContent_tblContentSearchResults'})\<close>.\<close>

definition results_table :: "node \<Rightarrow> tag option" where
  "results_table soup =
     find_with_attr ''div'' ''id'' ''MainContent_tblContentSearchResults'' ([], soup)"

text \<open>The function returns the list of records or raises. Its one effect is the
  line it prints when the container is missing; the lines printed so far are the
  state it is passed and returns.\<close>

definition parse_search_results ::
  "library \<Rightarrow> string \<Rightarrow> string list \<Rightarrow> (py_error + publication list) \<times> string list" where
  "parse_search_results L html_content out =
     (let soup = BeautifulSoup L (Str html_content) in
      case results_table soup of
        None \<Rightarrow> (Inr [], out @ [''(parse_search_results) No results table found''])
      | Some table \<Rightarrow>
          (case parse_links L soup (find_all_links table) ([], None) of
             Inl e \<Rightarrow> (Inl e, out)
           | Inr st \<Rightarrow> (Inr (fst st), out)))"


section \<open>Text extraction\<close>

text \<open>Lines 163 to 166 of \<open>extract_pdf_text\<close>: the loop over the pages, which stops
  at the first page whose \<open>extract_text()\<close> raises.\<close>

fun pdf_pages_text :: "(py_error + string) list \<Rightarrow> string \<Rightarrow> py_error + string" where
  "pdf_pages_text [] text = Inr text"
| "pdf_pages_text (page # pages) text =
     (case page of
        Inl e \<Rightarrow> Inl e
      | Inr t \<Rightarrow> pdf_pages_text pages (text @ t @ [CHR 0x0A]))"

text \<open>The result is \<open>None\<close> when the function returns \<open>None\<close>: for a \<open>str\<close> argument
  and for every exception, which the \<open>except\<close> clause swallows.\<close>

definition extract_pdf_text :: "library \<Rightarrow> doc_content \<Rightarrow> string option" where
  "extract_pdf_text L doc =
     (case doc of
        Str s \<Rightarrow> None
      | Bytes b \<Rightarrow>
          (case PdfReader L b of
             Inl e \<Rightarrow> None
           | Inr pages \<Rightarrow>
               (case pdf_pages_text pages [] of
                  Inl e \<Rightarrow> None
                | Inr text \<Rightarrow> Some (strip text))))"

text \<open>\<open>ebooklib.ITEM_DOCUMENT\<close>.\<close>

definition ITEM_DOCUMENT :: nat where
  "ITEM_DOCUMENT = 9"

text \<open>Lines 203 to 214 of \<open>extract_epub_text\<close>: the loop over the items, with
  \<open>text_content\<close> as accumulator.\<close>

fun epub_items_text ::
  "library \<Rightarrow> epub_item list \<Rightarrow> string list \<Rightarrow> py_error + string list" where
  "epub_items_text L [] text_content = Inr text_content"
| "epub_items_text L (item # items) text_content =
     (if get_type item = ITEM_DOCUMENT then
        (case get_content item of
           Inl e \<Rightarrow> Inl e
         | Inr c \<Rightarrow>
             (let soup = remove_scripts (BeautifulSoup L (Bytes c));
                  text = get_text [CHR 0x0A] soup
              in epub_items_text L items
                   (if strip text \<noteq> [] then text_content @ [text] else text_content)))
      else epub_items_text L items text_content)"

definition extract_epub_text :: "library \<Rightarrow> doc_content \<Rightarrow> string option" where
  "extract_epub_text L doc =
     (case doc of
        Str s \<Rightarrow> None
      | Bytes b \<Rightarrow>
          (case read_epub L b of
             Inl e \<Rightarrow> None
           | Inr items \<Rightarrow>
               (case epub_items_text L items [] of
                  Inl e \<Rightarrow> None
                | Inr text_content \<Rightarrow>
                    Some (strip (join [CHR 0x0A, CHR 0x0A] text_content)))))"

definition extract_document_text ::
  "library \<Rightarrow> doc_content \<Rightarrow> string option \<Rightarrow> string option \<Rightarrow> string option" where
  "extract_document_text L doc fmt doc_url =
     (let format_type = detect_format (guess_type L) doc fmt doc_url in
      if format_type = Some ''pdf'' then extract_pdf_text L doc
      else if format_type = Some ''epub'' then extract_epub_text L doc
      else None)"

section \<open>Download and the exposed tool\<close>

definition cac_required :: string where
  "cac_required =
     ''CAC_REQUIRED: This document requires Common Access Card (CAC) authentication''"

definition is_cac_error :: "string \<Rightarrow> bool" where
  "is_cac_error e =
     (contains ''redirect'' (lower e) \<and> contains ''federation.eams.army'' (lower e))"

definition get_document_text_from_url ::
  "library \<Rightarrow> string \<Rightarrow> string option \<Rightarrow> string option" where
  "get_document_text_from_url L doc_url fmt =
     (case http_get L doc_url of
        Inr content \<Rightarrow> extract_document_text L (Bytes content) fmt (Some doc_url)
      | Inl e \<Rightarrow> if is_cac_error e then Some cac_required else None)"

definition failure_message :: string where
  "failure_message =
     ''Failed to extract text from the publication. It may not be a supported format or the content could not be retrieved.''"

text \<open>Line 330: \<open>publication_url.split('.')[-1] if '.' in publication_url else None\<close>.\<close>

definition filetype_of :: "string \<Rightarrow> string option" where
  "filetype_of publication_url =
     (if contains ''.'' publication_url
      then Some (rev (takeWhile (\<lambda>c. c \<noteq> CHR ''.'') (rev publication_url)))
      else None)"

definition get_publication :: "library \<Rightarrow> string \<Rightarrow> string" where
  "get_publication L publication_url =
     (let filetype = filetype_of publication_url;
          document_text = get_document_text_from_url L publication_url filetype
      in case document_text of
           None \<Rightarrow> failure_message
         | Some t \<Rightarrow> if t \<noteq> [] then t else failure_message)"


section \<open>The specification's vocabulary\<close>

text \<open>The Format Resolver as the specification words it: three signals tried in a
  fixed order, the first that answers wins. \<open>zip_magic\<close> is the byte sequence the
  third signal asks the content to start with.\<close>

datatype FormatDecision = PDF | EPUB | UNKNOWN

definition decision_of :: "string option \<Rightarrow> FormatDecision" where
  "decision_of format_type =
     (if format_type = Some ''pdf'' then PDF
      else if format_type = Some ''epub'' then EPUB else UNKNOWN)"

definition hint_signal :: "string option \<Rightarrow> FormatDecision option" where
  "hint_signal hint =
     (case hint of
        None \<Rightarrow> None
      | Some h \<Rightarrow>
          if contains ''pdf'' (lower h) then Some PDF
          else if contains ''epub'' (lower h) \<or> contains ''ebook'' (lower h) then Some EPUB
          else None)"

definition url_signal ::
  "(string \<Rightarrow> string option) \<Rightarrow> string option \<Rightarrow> FormatDecision option" where
  "url_signal mime doc_url =
     (case doc_url of
        None \<Rightarrow> None
      | Some u \<Rightarrow>
          if suffix ''.pdf'' (lower u) then Some PDF
          else if suffix ''.epub'' (lower u) then Some EPUB
          else if mime u = Some ''application/pdf'' then Some PDF
          else if mime u = Some ''application/epub+zip'' then Some EPUB
          else None)"

definition bytes_signal :: "bytes \<Rightarrow> bytes \<Rightarrow> FormatDecision option" where
  "bytes_signal zip_magic b =
     (if prefix ''%PDF'' b then Some PDF
      else if prefix zip_magic b \<and> contains ''epub'' (lower (take 1024 b)) then Some EPUB
      else None)"

definition resolve ::
  "bytes \<Rightarrow> (string \<Rightarrow> string option) \<Rightarrow> string option \<Rightarrow> string option \<Rightarrow> bytes
     \<Rightarrow> FormatDecision" where
  "resolve zip_magic mime hint doc_url b =
     (case hint_signal hint of
        Some d \<Rightarrow> d
      | None \<Rightarrow>
          (case url_signal mime doc_url of
             Some d \<Rightarrow> d
           | None \<Rightarrow>
               (case bytes_signal zip_magic b of
                  Some d \<Rightarrow> d
                | None \<Rightarrow> UNKNOWN)))"

text \<open>The signature that opens a local file header of a ZIP archive:
  \<open>PK\x03\x04\<close>.\<close>

definition zip_local_file_header :: bytes where
  "zip_local_file_header = [CHR ''P'', CHR ''K'', CHR 0x03, CHR 0x04]"

text \<open>A leading run of uppercase letters of \<open>s\<close>, and a maximal one.\<close>

definition upper_run :: "string \<Rightarrow> string \<Rightarrow> bool" where
  "upper_run s r = (prefix r s \<and> list_all is_upper r)"

definition maximal_upper_run :: "string \<Rightarrow> string \<Rightarrow> bool" where
  "maximal_upper_run s r = (upper_run s r \<and> (\<forall>p. upper_run s p \<longrightarrow> length p \<le> length r))"

text \<open>The anchors of a page that give a record, in document order, and the
  description cell of an anchor: the cell lines 80 to 87 arrive at, if any.\<close>

definition publication_links :: "node \<Rightarrow> tag list" where
  "publication_links soup =
     (case results_table soup of
        None \<Rightarrow> []
      | Some table \<Rightarrow> filter is_publication_link (find_all_links table))"

definition description_cell :: "node \<Rightarrow> tag \<Rightarrow> tag option" where
  "description_cell root link =
     (case find_parent root ''td'' (fst link) of
        None \<Rightarrow> None
      | Some description_td \<Rightarrow>
          (case next_cell root description_td of
             Inl e \<Rightarrow> None
           | Inr next_td \<Rightarrow> next_td))"

text \<open>The text of a node as the page holds it: its strings in document order, each
  as it is (\<open>get_text()\<close> with no argument).\<close>

definition full_text :: "node \<Rightarrow> string" where
  "full_text n = concat (concat (map (\<lambda>(p, m). text_of m) (descendants n)))"

text \<open>An item of an EPUB that adds no text: it is no document, or the text of its
  markup is empty once stripped.\<close>

definition item_without_text :: "library \<Rightarrow> epub_item \<Rightarrow> bool" where
  "item_without_text L item =
     (get_type item \<noteq> ITEM_DOCUMENT \<or>
      (case get_content item of
         Inl e \<Rightarrow> False
       | Inr c \<Rightarrow>
           strip (get_text [CHR 0x0A] (remove_scripts (BeautifulSoup L (Bytes c)))) = []))"

section \<open>Sample inputs\<close>

text \<open>A printer for trees, the \<open>tag_str\<close> of the sample library. (bs4 also escapes
  \<open>&\<close>, \<open><\<close> and \<open>>\<close> and prints void elements without a closing tag.)\<close>

fun render :: "node \<Rightarrow> string" where
  "render (Text s) = s"
| "render (Comment s) = ''<!--'' @ s @ ''-->''"
| "render (Elem name attrs cs) =
     ''<'' @ name
       @ concat (map (\<lambda>(k, v). '' '' @ k @ ''='' @ [CHR 0x22] @ v @ [CHR 0x22]) attrs)
       @ ''>'' @ concat (map render cs) @ ''</'' @ name @ ''>''"

definition no_mime :: "string \<Rightarrow> string option" where
  "no_mime u = None"

definition sample_pdf_reader :: "bytes \<Rightarrow> py_error + (py_error + string) list" where
  "sample_pdf_reader b =
     (if b = ''%PDF-hello'' then Inr [Inr ''Hello'', Inr ''World'']
      else if b = ''%PDF-empty'' then Inr []
      else Inl (LibraryError ''EOF marker not found''))"

definition sample_read_epub :: "bytes \<Rightarrow> py_error + epub_item list" where
  "sample_read_epub b =
     (if b = ''PK-blank-epub''
      then Inr [Item 2 (Inr ''body {}''), Item ITEM_DOCUMENT (Inr ''<script>x</script>'')]
      else Inl (LibraryError ''File is not a zip file''))"

definition restricted_url :: string where
  "restricted_url = ''https://armypubs.army.mil/epubs/DR_pubs/DR_c/ARN1.pdf''"

definition empty_pdf_url :: string where
  "empty_pdf_url = ''https://armypubs.army.mil/epubs/DR_pubs/DR_a/ARN2.pdf''"

definition broken_pdf_url :: string where
  "broken_pdf_url = ''https://armypubs.army.mil/epubs/DR_pubs/DR_a/ARN3.pdf''"

definition redirect_error :: string where
  "redirect_error =
     ''Redirect response 302 Found for url https://armypubs.army.mil/epubs/DR_pubs/DR_c/ARN1.pdf Redirect location: https://federation.eams.army.mil/sso/authenticate''"

definition unreachable_url :: string where
  "unreachable_url = ''https://federation.eams.army.mil/pubs/ARN4.pdf''"

definition connect_error :: string where
  "connect_error = ''Name or service not known: federation.eams.army.mil''"

definition sample_http_get :: "string \<Rightarrow> string + bytes" where
  "sample_http_get u =
     (if u = restricted_url then Inl redirect_error
      else if u = unreachable_url then Inl connect_error
      else if u = empty_pdf_url then Inr ''%PDF-empty''
      else if u = broken_pdf_url then Inr ''%PDF-broken''
      else Inl ''All connection attempts failed'')"

definition sample_library :: "node \<Rightarrow> library" where
  "sample_library page =
     \<lparr>BeautifulSoup = (\<lambda>markup. page), tag_str = render, guess_type = no_mime,
      PdfReader = sample_pdf_reader, read_epub = sample_read_epub,
      http_get = sample_http_get\<rparr>"

text \<open>What \<open>html.parser\<close> builds for \<open><script>x</script>\<close>.\<close>

definition script_page :: node where
  "script_page = Elem ''[document]'' [] [Elem ''script'' [] [Comment ''x'']]"

text \<open>A results page with one table row: an anchor with its format label, and the
  cell beside it.\<close>

definition results_page :: node where
  "results_page =
     Elem ''[document]'' []
       [Elem ''div'' [(''id'', ''MainContent_tblContentSearchResults'')]
          [Elem ''table'' []
             [Elem ''tr'' []
                [Elem ''td'' []
                   [Elem ''a'' [(''href'', ''/epubs/DR_a/ARN1.pdf'')]
                      [Text (''ATP3-21.8'' @ title_separator @ ''INFANTRY PLATOON'')],
                    Elem ''span'' [(''style'', ''font-size:smaller'')] [Text '' EPUB '']],
                 Elem ''td'' []
                   [Text '' Jan 12, 2016 You need a Common Access Card (CAC) to view it. '']],
              Elem ''tr'' []
                [Elem ''td'' []
                   [Elem ''a'' [(''href'', ''/epubs/Details.aspx?ID=1'')]
                      [Text ''Record Details'']]]]]]"

text \<open>\<open><div id="MainContent_tblContentSearchResults"><a href="/epubs/a.pdf">AR
  1</a></div>\<close>: an anchor outside any table.\<close>

definition bare_link_page :: node where
  "bare_link_page =
     Elem ''[document]'' []
       [Elem ''div'' [(''id'', ''MainContent_tblContentSearchResults'')]
          [Elem ''a'' [(''href'', ''/epubs/a.pdf'')] [Text ''AR 1'']]]"

text \<open>\<open><div id="MainContent_tblContentSearchResults"><td><a href="/epubs/a.pdf">AR
  1</a></td></div>\<close>: a cell outside any row, which \<open>html.parser\<close> keeps as it
  is.\<close>

definition rowless_page :: node where
  "rowless_page =
     Elem ''[document]'' []
       [Elem ''div'' [(''id'', ''MainContent_tblContentSearchResults'')]
          [Elem ''td'' [] [Elem ''a'' [(''href'', ''/epubs/a.pdf'')] [Text ''AR 1'']]]]"

text \<open>A table row with an anchor and its cell, followed by an anchor outside the
  table.\<close>

definition mixed_page :: node where
  "mixed_page =
     Elem ''[document]'' []
       [Elem ''div'' [(''id'', ''MainContent_tblContentSearchResults'')]
          [Elem ''table'' []
             [Elem ''tr'' []
                [Elem ''td'' [] [Elem ''a'' [(''href'', ''/epubs/a.pdf'')] [Text ''AR 1'']],
                 Elem ''td'' [] [Text ''May 13, 2019 Army Regulation'']]],
           Elem ''a'' [(''href'', ''/epubs/b.pdf'')] [Text ''TC 2'']]]"


text \<open>A results page whose description cell is \<open><td>You need a Common Access Card
  <b>(CAC)</b> to view it.</td>\<close>, with its anchor and that cell.\<close>

definition cac_markup_page :: node where
  "cac_markup_page =
     Elem ''[document]'' []
       [Elem ''div'' [(''id'', ''MainContent_tblContentSearchResults'')]
          [Elem ''table'' []
             [Elem ''tr'' []
                [Elem ''td'' []
                   [Elem ''a'' [(''href'', ''/epubs/DR_a/ARN5.pdf'')] [Text ''AR 25-2'']],
                 Elem ''td'' []
                   [Text ''You need a Common Access Card '',
                    Elem ''b'' [] [Text ''(CAC)''],
                    Text '' to view it.'']]]]]"

definition cac_markup_link :: tag where
  "cac_markup_link =
     ([0, 0, 0, 0, 0], Elem ''a'' [(''href'', ''/epubs/DR_a/ARN5.pdf'')] [Text ''AR 25-2''])"

definition cac_markup_cell :: tag where
  "cac_markup_cell =
     ([0, 0, 0, 1],
      Elem ''td'' []
        [Text ''You need a Common Access Card '',
         Elem ''b'' [] [Text ''(CAC)''],
         Text '' to view it.''])"

text \<open>The record \<open>parse_search_results\<close> returns for \<open>results_page\<close>.\<close>

definition results_page_records :: "publication list" where
  "results_page_records =
     [\<lparr>document_number = ''ATP3-21.8'', title = ''INFANTRY PLATOON'',
       document_type = ''ATP'', file_format = ''EPUB'', date = ''Jan 12, 2016'',
       description = ''This publication or form requires Common Access Card (CAC) to view it'',
       url = ''https://armypubs.army.mil/epubs/DR_a/ARN1.pdf''\<rparr>]"

section \<open>Substrings and stripping\<close>

lemma contains_iff: "contains n h = (\<exists>a b. h = a @ n @ b)"
proof (induction h)
  case Nil
  then show ?case by auto
next
  case (Cons c cs)
  show ?case
  proof
    assume "contains n (c # cs)"
    then consider "prefix n (c # cs)" | "contains n cs" by auto
    then show "\<exists>a b. c # cs = a @ n @ b"
    proof cases
      case 1
      then obtain b where "c # cs = n @ b" by (auto simp: prefix_def)
      then have "c # cs = [] @ n @ b" by simp
      then show ?thesis by blast
    next
      case 2
      with Cons obtain a b where "cs = a @ n @ b" by auto
      then have "c # cs = (c # a) @ n @ b" by simp
      then show ?thesis by blast
    qed
  next
    assume "\<exists>a b. c # cs = a @ n @ b"
    then obtain a b where ab: "c # cs = a @ n @ b" by auto
    show "contains n (c # cs)"
    proof (cases a)
      case Nil
      with ab have "prefix n (c # cs)" by (simp add: prefix_def)
      then show ?thesis by simp
    next
      case (Cons x xs)
      with ab have "cs = xs @ n @ b" by simp
      with Cons.IH have "contains n cs" by blast
      then show ?thesis by simp
    qed
  qed
qed

lemma lower_append: "lower (a @ b) = lower a @ lower b"
  by (simp add: lower_def)

lemma lower_epub: "lower ''epub'' = ''epub''"
  by code_simp

lemma take_long: "length a \<le> n \<Longrightarrow> take n (a @ y) = a @ take (n - length a) y"
  by simp

lemma strip_trailing_space: "is_space c \<Longrightarrow> strip (s @ [c]) = strip s"
proof (cases "\<forall>x\<in>set s. is_space x")
  case True
  assume "is_space c"
  with True have "\<forall>x\<in>set (s @ [c]). is_space x" by simp
  then have "dropWhile is_space (s @ [c]) = []" by (simp only: dropWhile_eq_Nil_conv)
  moreover from True have "dropWhile is_space s = []" by (simp only: dropWhile_eq_Nil_conv)
  ultimately show ?thesis by (simp only: strip_def)
next
  case False
  assume c: "is_space c"
  from False have "dropWhile is_space (s @ [c]) = dropWhile is_space s @ [c]"
    by (auto simp: dropWhile_append1)
  with c show ?thesis by (simp add: strip_def)
qed

lemma newline_space: "is_space (CHR 0x0A)"
  by (simp add: is_space_def)

lemma concat_join: "texts \<noteq> [] \<Longrightarrow> concat (map (\<lambda>t. t @ sep) texts) = join sep texts @ sep"
  by (induction sep texts rule: join.induct) auto

section \<open>Format resolution\<close>

lemma format_from_hint_spec:
  "map_option (\<lambda>s. decision_of (Some s)) (format_from_hint hint) = hint_signal hint"
  by (cases hint)
    (auto simp: format_from_hint_def hint_signal_def decision_of_def Let_def lower_def)

lemma format_from_url_spec:
  "mime [] = None \<Longrightarrow>
   map_option (\<lambda>s. decision_of (Some s)) (format_from_url mime u) = url_signal mime u"
  by (cases u)
    (auto simp: format_from_url_def url_signal_def decision_of_def Let_def lower_def suffix_def)

lemma format_from_content_spec:
  "map_option (\<lambda>s. decision_of (Some s)) (format_from_content (Bytes b)) = bytes_signal ''PK'' b"
  by (auto simp: format_from_content_def bytes_signal_def decision_of_def)

lemma detect_format_resolve:
  "mime [] = None \<Longrightarrow>
   decision_of (detect_format mime (Bytes b) hint u) = resolve ''PK'' mime hint u b"
  using format_from_hint_spec [of hint] format_from_url_spec [of mime u]
    format_from_content_spec [of b]
  by (auto simp: detect_format_def resolve_def Let_def decision_of_def split: option.splits)

lemma detect_format_hint_vector:
  "decision_of (detect_format mime (Bytes []) (Some ''EPUB (ebook)'') None) = EPUB"
  by code_simp

lemma detect_format_suffix_vector:
  "decision_of (detect_format mime (Bytes []) None (Some ''https://x/y.PDF'')) = PDF"
  by code_simp

lemma detect_format_pdf_magic_vector:
  "decision_of (detect_format mime (Bytes (''%PDF-1.4'' @ rest)) None None) = PDF"
  by (simp add: detect_format_def format_from_hint_def format_from_url_def
      format_from_content_def decision_of_def)

lemma detect_format_garbage_vector:
  "decision_of (detect_format mime (Bytes ''garbage'') None None) = UNKNOWN"
  by code_simp

lemma detect_format_zip_vector:
  assumes "mime ''https://x/y'' = None" and "length x \<le> 1016"
  shows "decision_of (detect_format mime (Bytes (zip_local_file_header @ x @ ''epub'' @ y))
           None (Some ''https://x/y'')) = EPUB"
proof -
  have u: "format_from_url mime (Some ''https://x/y'') = None"
    using assms(1)
    by (simp add: format_from_url_def Let_def lower_def char_lower_def upper_letters_def
        lower_letters_def suffix_def)
  have "length (zip_local_file_header @ x @ ''epub'') \<le> 1024"
    using assms(2) by (simp add: zip_local_file_header_def)
  then have "take 1024 ((zip_local_file_header @ x @ ''epub'') @ y) =
      (zip_local_file_header @ x @ ''epub'')
        @ take (1024 - length (zip_local_file_header @ x @ ''epub'')) y"
    by (rule take_long)
  then have t: "take 1024 (zip_local_file_header @ x @ ''epub'' @ y) =
      zip_local_file_header @ x @ ''epub''
        @ take (1024 - length (zip_local_file_header @ x @ ''epub'')) y"
    by simp
  have "contains ''epub'' (lower (take 1024 (zip_local_file_header @ x @ ''epub'' @ y)))"
    unfolding t lower_append lower_epub contains_iff
    by (metis append.assoc)
  then show ?thesis
    using u
    by (simp add: detect_format_def format_from_hint_def format_from_content_def
        decision_of_def zip_local_file_header_def)
qed

text \<open>
  Claim C2, as stated, asks content that does not start with the ZIP
  local-file-header magic \<open>PK\x03\x04\<close> to resolve to UNKNOWN when hint and URL give
  nothing. The code asks for the two bytes \<open>PK\<close> only: \<open>b"PK epub"\<close> is EPUB.
\<close>

theorem zip_magic_counterexample:
  "decision_of (detect_format no_mime (Bytes ''PK epub'') None None) = EPUB
   \<and> resolve zip_local_file_header no_mime None None ''PK epub'' = UNKNOWN"
  by code_simp

text \<open>
  Claim C2, amended. The format detected for a byte content is the decision of the
  three signals tried in order, the first that answers winning: a hint whose
  lowercase form contains \<open>pdf\<close> is PDF, one that contains \<open>epub\<close> or \<open>ebook\<close> is
  EPUB; otherwise a URL ending, case-insensitively, in \<open>.pdf\<close> is PDF, in \<open>.epub\<close>
  EPUB, else the MIME type of the URL decides; otherwise content starting with
  \<open>%PDF\<close> is PDF, and content starting with the two bytes \<open>PK\<close> whose first 1024
  bytes contain \<open>epub\<close>, case-insensitively, is EPUB; anything else is UNKNOWN. The
  MIME table has no type for the empty URL. The five test vectors hold, the fourth
  for a table with no type for \<open>https://x/y\<close>.
\<close>

theorem format_resolution:
  "mime [] = None \<Longrightarrow>
   decision_of (detect_format mime (Bytes b) hint doc_url) = resolve ''PK'' mime hint doc_url b
   \<and> decision_of (detect_format mime (Bytes []) (Some ''EPUB (ebook)'') None) = EPUB
   \<and> decision_of (detect_format mime (Bytes []) None (Some ''https://x/y.PDF'')) = PDF
   \<and> decision_of (detect_format mime (Bytes (''%PDF-1.4'' @ rest)) None None) = PDF
   \<and> (mime ''https://x/y'' = None \<and> length x \<le> 1016 \<longrightarrow>
        decision_of (detect_format mime (Bytes (zip_local_file_header @ x @ ''epub'' @ y))
          None (Some ''https://x/y'')) = EPUB)
   \<and> decision_of (detect_format mime (Bytes ''garbage'') None None) = UNKNOWN"
  using detect_format_resolve [of mime b hint doc_url] detect_format_hint_vector [of mime]
    detect_format_suffix_vector [of mime] detect_format_pdf_magic_vector [of mime rest]
    detect_format_zip_vector [of mime x y] detect_format_garbage_vector [of mime]
  by simp

theorem format_resolution_witness:
  "no_mime [] = None
   \<and> decision_of (detect_format no_mime (Bytes ''PK epub'') None None)
       = resolve ''PK'' no_mime None None ''PK epub''
   \<and> no_mime ''https://x/y'' = None \<and> length ''...'' \<le> (1016 :: nat)
   \<and> decision_of (detect_format no_mime (Bytes (zip_local_file_header @ ''...'' @ ''epub'' @ ''...''))
        None (Some ''https://x/y'')) = EPUB"
  using format_resolution [of no_mime "''PK epub''" None None "''...''" "''...''" "''...''"]
  by (simp add: no_mime_def)


section \<open>Records of a results page\<close>

lemma parse_link_skip:
  "\<not> is_publication_link link \<Longrightarrow> parse_link L root link st = Inr st' \<Longrightarrow> st' = st"
  by (auto simp: parse_link_def is_publication_link_def Let_def split: if_splits)

lemma parse_link_record:
  assumes "is_publication_link link" and "parse_link L root link st = Inr st'"
  shows "\<exists>r. fst st' = fst st @ [r]
           \<and> document_type r = document_type_of (document_number r)
           \<and> (\<forall>c. description_cell root link = Some c \<longrightarrow>
                 description r = snd (cell_fields (Some c)))"
  using assms
  by (auto simp: parse_link_def is_publication_link_def Let_def assign_cell_vars_def
      description_cell_def split: if_splits sum.splits option.splits prod.splits)

text \<open>The loop adds one record for each publication link, in order, and nothing
  else: what one iteration establishes of its record holds of the list.\<close>

lemma parse_links_records:
  assumes step: "\<And>link st st'. is_publication_link link \<Longrightarrow> parse_link L root link st = Inr st'
                   \<Longrightarrow> \<exists>r. fst st' = fst st @ [r] \<and> P link r"
    and run: "parse_links L root links st = Inr st'"
  shows "\<exists>new. fst st' = fst st @ new \<and> list_all2 P (filter is_publication_link links) new"
  using run
proof (induction links arbitrary: st)
  case Nil
  then show ?case by simp
next
  case (Cons link links)
  from Cons.prems obtain st1 where one: "parse_link L root link st = Inr st1"
    and rest: "parse_links L root links st1 = Inr st'"
    by (auto split: sum.splits)
  from Cons.IH [OF rest] obtain new where new: "fst st' = fst st1 @ new"
    "list_all2 P (filter is_publication_link links) new" by blast
  show ?case
  proof (cases "is_publication_link link")
    case True
    from step [OF True one] obtain r where "fst st1 = fst st @ [r]" "P link r" by blast
    with new True have "fst st' = fst st @ (r # new)
        \<and> list_all2 P (filter is_publication_link (link # links)) (r # new)"
      by simp
    then show ?thesis by blast
  next
    case False
    from False one have "st1 = st" by (rule parse_link_skip)
    with new False show ?thesis by auto
  qed
qed

lemma parse_search_results_records:
  assumes step: "\<And>link st st'. is_publication_link link
                   \<Longrightarrow> parse_link L (BeautifulSoup L (Str html)) link st = Inr st'
                   \<Longrightarrow> \<exists>r. fst st' = fst st @ [r] \<and> P link r"
    and run: "fst (parse_search_results L html out) = Inr rs"
  shows "list_all2 P (publication_links (BeautifulSoup L (Str html))) rs"
proof (cases "results_table (BeautifulSoup L (Str html))")
  case None
  with run show ?thesis by (simp add: parse_search_results_def publication_links_def)
next
  case (Some table)
  with run obtain st' where
    "parse_links L (BeautifulSoup L (Str html)) (find_all_links table) ([], None) = Inr st'"
    and "rs = fst st'"
    by (auto simp: parse_search_results_def Let_def split: sum.splits)
  with parse_links_records
    [of L "BeautifulSoup L (Str html)" P "find_all_links table" "([], None)" st'] step
  show ?thesis using Some by (auto simp: publication_links_def)
qed

lemma cell_fields_cac:
  "contains cac_phrase (get_text [] (snd c)) \<Longrightarrow> snd (cell_fields (Some c)) = cac_sentence"
  by (simp add: cell_fields_def Let_def)

lemma list_all2_right: "list_all2 (\<lambda>x y. Q y) xs ys \<Longrightarrow> list_all Q ys"
  by (induction xs ys rule: list_all2_induct) auto

lemma parse_search_results_document_type:
  assumes "fst (parse_search_results L html out) = Inr rs"
  shows "list_all (\<lambda>r. document_type r = document_type_of (document_number r)) rs"
proof (rule list_all2_right, rule parse_search_results_records [OF _ assms])
  fix link st st'
  assume "is_publication_link link" "parse_link L (BeautifulSoup L (Str html)) link st = Inr st'"
  from parse_link_record [OF this]
  show "\<exists>r. fst st' = fst st @ [r] \<and> document_type r = document_type_of (document_number r)"
    by blast
qed

lemma takeWhile_maximal: "maximal_upper_run s (takeWhile is_upper s)"
proof -
  have "upper_run s (takeWhile is_upper s)"
    unfolding upper_run_def
    by (metis list_all_iff prefix_def set_takeWhileD takeWhile_dropWhile_id)
  moreover have "length p \<le> length (takeWhile is_upper s)" if "upper_run s p" for p
  proof -
    from that obtain q where "s = p @ q" and "\<forall>x\<in>set p. is_upper x"
      by (auto simp: upper_run_def prefix_def list_all_iff)
    then have "takeWhile is_upper s = p @ takeWhile is_upper q" by simp
    then show ?thesis by simp
  qed
  ultimately show ?thesis by (simp add: maximal_upper_run_def)
qed

lemma maximal_upper_run_unique: "maximal_upper_run s r \<Longrightarrow> r = takeWhile is_upper s"
proof -
  assume m: "maximal_upper_run s r"
  have "length r = length (takeWhile is_upper s)"
    using m takeWhile_maximal [of s] by (simp add: maximal_upper_run_def le_antisym)
  moreover obtain a b where "s = r @ a" "s = takeWhile is_upper s @ b"
    using m takeWhile_maximal [of s]
    by (auto simp: maximal_upper_run_def upper_run_def prefix_def)
  ultimately show ?thesis
    by (metis append_eq_append_conv)
qed

lemma document_type_of_run:
  "maximal_upper_run s r \<Longrightarrow> document_type_of s = (if r = [] then ''Unknown'' else r)"
  by (drule maximal_upper_run_unique) (simp add: document_type_of_def match_upper_def Let_def)

lemma document_type_of_vectors:
  "document_type_of ''ATP3-21.8'' = ''ATP'' \<and> document_type_of ''123'' = ''Unknown''"
  by code_simp

lemma results_page_parsed:
  "fst (parse_search_results (sample_library results_page) [] []) = Inr results_page_records"
  by code_simp

text \<open>
  Claim C3 fails on the code: \<open>parse_search_results\<close> raises. For a page whose
  anchor sits in a table cell that has no following cell and no enclosing row (the
  markup \<open><div id="MainContent_tblContentSearchResults"><td><a
  href="/epubs/a.pdf">AR 1</a></td></div>\<close>), line 85 calls \<open>find_next_sibling\<close> on
  the \<open>None\<close> that \<open>find_parent('tr')\<close> returned: an AttributeError leaves the
  function.
\<close>

theorem parse_search_results_raises:
  "fst (parse_search_results (sample_library rowless_page) html out) = Inl AttributeError"
  by code_simp

text \<open>
  Claim C4 fails on the code. For a page whose first publication anchor has no
  enclosing table cell, \<open>date_text\<close> and \<open>description\<close> are still unbound at line
  111 and an UnboundLocalError leaves the function: no record is produced. For an
  anchor without a cell that follows an anchor with one, the record takes the date
  and description of the earlier anchor.
\<close>

theorem parse_search_results_without_cell:
  "fst (parse_search_results (sample_library bare_link_page) html out) = Inl UnboundLocalError
   \<and> map (\<lambda>l. find_parent mixed_page ''td'' (fst l)) (publication_links mixed_page)
       = [Some ([0, 0, 0, 0], Elem ''td'' []
                  [Elem ''a'' [(''href'', ''/epubs/a.pdf'')] [Text ''AR 1'']]), None]
   \<and> map_sum id (map (\<lambda>r. (document_number r, date r, description r)))
        (fst (parse_search_results (sample_library mixed_page) html out))
       = Inr [(''AR 1'', ''May 13, 2019'', ''May 13, 2019 Army Regulation''),
              (''TC 2'', ''May 13, 2019'', ''May 13, 2019 Army Regulation'')]"
  by code_simp

text \<open>
  Claim C5, as stated, fails on the code. The text line 92 reads from the cell is
  \<open>get_text(strip=True)\<close>: every string of the cell stripped, the strings joined
  with nothing between them. In the cell \<open>You need a Common Access Card
  <b>(CAC)</b> to view it.\<close> the text of the cell contains the phrase, the text
  read from it is \<open>You need a Common Access Card(CAC)to view it.\<close> and does not,
  and that raw text is the description of the record.
\<close>

theorem cac_phrase_across_markup_counterexample:
  "publication_links cac_markup_page = [cac_markup_link]
   \<and> description_cell cac_markup_page cac_markup_link = Some cac_markup_cell
   \<and> contains cac_phrase (full_text (snd cac_markup_cell))
   \<and> fst (parse_search_results (sample_library cac_markup_page) [] [])
       = Inr [\<lparr>document_number = ''AR 25-2'', title = [], document_type = ''AR'',
               file_format = ''pdf'', date = [],
               description = ''You need a Common Access Card(CAC)to view it.'',
               url = ''https://armypubs.army.mil/epubs/DR_a/ARN5.pdf''\<rparr>]
   \<and> ''You need a Common Access Card(CAC)to view it.'' \<noteq> cac_sentence"
  by code_simp

text \<open>
  Claim C5, amended. When \<open>parse_search_results\<close> returns, its records are those of
  the publication anchors of the page, one each and in order, and for every anchor
  for which the text read from its description cell (the strings of the cell, each
  stripped of the white space around it, joined with nothing between them)
  contains \<open>Common Access Card (CAC) to view it\<close>, the description of its record is
  the fixed sentence \<open>This publication or form requires Common Access Card (CAC) to
  view it\<close>, not the text of the cell.
\<close>

theorem cac_description_canonical:
  assumes "fst (parse_search_results L html out) = Inr rs"
  shows "list_all2
           (\<lambda>link r. \<forall>c. description_cell (BeautifulSoup L (Str html)) link = Some c
                \<and> contains cac_phrase (get_text [] (snd c)) \<longrightarrow> description r = cac_sentence)
           (publication_links (BeautifulSoup L (Str html))) rs"
proof (rule parse_search_results_records [OF _ assms])
  fix link st st'
  assume "is_publication_link link" "parse_link L (BeautifulSoup L (Str html)) link st = Inr st'"
  from parse_link_record [OF this] cell_fields_cac
  show "\<exists>r. fst st' = fst st @ [r]
          \<and> (\<forall>c. description_cell (BeautifulSoup L (Str html)) link = Some c
                \<and> contains cac_phrase (get_text [] (snd c)) \<longrightarrow> description r = cac_sentence)"
    by metis
qed

theorem cac_description_canonical_witness:
  "fst (parse_search_results (sample_library results_page) [] []) = Inr results_page_records
   \<and> list_all
       (\<lambda>link. case description_cell results_page link of
                 None \<Rightarrow> False
               | Some c \<Rightarrow> contains cac_phrase (get_text [] (snd c)))
       (publication_links results_page)
   \<and> list_all2
       (\<lambda>link r. \<forall>c. description_cell
                        (BeautifulSoup (sample_library results_page) (Str [])) link = Some c
            \<and> contains cac_phrase (get_text [] (snd c)) \<longrightarrow> description r = cac_sentence)
       (publication_links (BeautifulSoup (sample_library results_page) (Str [])))
       results_page_records"
proof -
  have cells: "list_all
       (\<lambda>link. case description_cell results_page link of
                 None \<Rightarrow> False
               | Some c \<Rightarrow> contains cac_phrase (get_text [] (snd c)))
       (publication_links results_page)"
    by code_simp
  show ?thesis
    using results_page_parsed cells cac_description_canonical [OF results_page_parsed]
    by simp
qed

text \<open>
  Claim C6. The document type of every record \<open>parse_search_results\<close> returns is
  derived from its document number: the maximal leading run of uppercase letters
  of the number, and \<open>Unknown\<close> when that run is empty. Every number has such a run.
  \<open>ATP3-21.8\<close> gives \<open>ATP\<close> and \<open>123\<close> gives \<open>Unknown\<close>.
\<close>

theorem document_type_leading_upper_run:
  "(fst (parse_search_results L html out) = Inr rs \<longrightarrow>
      list_all (\<lambda>r. document_type r = document_type_of (document_number r)) rs)
   \<and> (\<exists>r. maximal_upper_run s r)
   \<and> (\<forall>r. maximal_upper_run s r \<longrightarrow> document_type_of s = (if r = [] then ''Unknown'' else r))
   \<and> document_type_of ''ATP3-21.8'' = ''ATP''
   \<and> document_type_of ''123'' = ''Unknown''"
  using parse_search_results_document_type [of L html out rs] takeWhile_maximal [of s]
    document_type_of_run [of s] document_type_of_vectors
  by blast

theorem document_type_leading_upper_run_witness:
  "fst (parse_search_results (sample_library results_page) [] []) = Inr results_page_records
   \<and> list_all (\<lambda>r. document_type r = document_type_of (document_number r)) results_page_records
   \<and> (\<exists>r. maximal_upper_run ''ATP3-21.8'' r
          \<and> document_type_of ''ATP3-21.8'' = (if r = [] then ''Unknown'' else r))"
  using results_page_parsed
    document_type_leading_upper_run
      [of "sample_library results_page" "[]" "[]" results_page_records "''ATP3-21.8''"]
  by blast

section \<open>Extracted text\<close>

lemma pdf_pages_text_all:
  "pdf_pages_text (map Inr texts) acc = Inr (acc @ concat (map (\<lambda>t. t @ [CHR 0x0A]) texts))"
  by (induction texts arbitrary: acc) auto

lemma extract_pdf_text_join:
  assumes "PdfReader L b = Inr (map Inr texts)"
  shows "extract_pdf_text L (Bytes b) = Some (strip (join [CHR 0x0A] texts))"
proof (cases "texts = []")
  case True
  with assms show ?thesis by (simp add: extract_pdf_text_def)
next
  case False
  then have "strip (concat (map (\<lambda>t. t @ [CHR 0x0A]) texts)) = strip (join [CHR 0x0A] texts)"
    by (simp add: concat_join strip_trailing_space newline_space)
  with assms show ?thesis by (simp add: extract_pdf_text_def pdf_pages_text_all)
qed

lemma strip_hello_world:
  "strip (join [CHR 0x0A] [''Hello'', ''World'']) = ''Hello'' @ [CHR 0x0A] @ ''World''"
  by code_simp

lemma epub_items_text_blank:
  "list_all (item_without_text L) items \<Longrightarrow> epub_items_text L items acc = Inr acc"
  by (induction items arbitrary: acc)
    (auto simp: item_without_text_def Let_def split: sum.splits)

text \<open>
  Claim C7. When the PDF reader yields pages that all give their text, the PDF
  extractor returns the texts joined in order by a newline, stripped of the
  whitespace around the whole; for the pages \<open>Hello\<close> and \<open>World\<close> that is
  \<open>Hello\nWorld\<close>.
\<close>

theorem extract_pdf_text_pages:
  "(PdfReader L b = Inr (map Inr texts) \<longrightarrow>
      extract_pdf_text L (Bytes b) = Some (strip (join [CHR 0x0A] texts)))
   \<and> (PdfReader L b' = Inr [Inr ''Hello'', Inr ''World''] \<longrightarrow>
      extract_pdf_text L (Bytes b') = Some (''Hello'' @ [CHR 0x0A] @ ''World''))"
  using extract_pdf_text_join [of L b texts]
    extract_pdf_text_join [of L b' "[''Hello'', ''World'']"] strip_hello_world
  by simp

theorem extract_pdf_text_pages_witness:
  "PdfReader (sample_library script_page) ''%PDF-hello'' = Inr [Inr ''Hello'', Inr ''World'']
   \<and> extract_pdf_text (sample_library script_page) (Bytes ''%PDF-hello'')
       = Some (''Hello'' @ [CHR 0x0A] @ ''World'')"
proof -
  have h: "PdfReader (sample_library script_page) ''%PDF-hello''
             = Inr [Inr ''Hello'', Inr ''World'']"
    by code_simp
  show ?thesis
    using h extract_pdf_text_pages
      [of "sample_library script_page" "''%PDF-hello''" "[''Hello'', ''World'']" "''%PDF-hello''"]
    by blast
qed

text \<open>
  Claim C8. A PDF whose reader yields no page gives the empty string, and so does
  an EPUB whose reader yields no item with text; both are results, unlike the
  \<open>None\<close> either extractor returns when its reader raises.
\<close>

theorem extract_nothing_is_success:
  "(PdfReader L b1 = Inr [] \<longrightarrow> extract_pdf_text L (Bytes b1) = Some [])
   \<and> (PdfReader L b2 = Inl e2 \<longrightarrow> extract_pdf_text L (Bytes b2) = None)
   \<and> (read_epub L b3 = Inr items \<and> list_all (item_without_text L) items \<longrightarrow>
        extract_epub_text L (Bytes b3) = Some [])
   \<and> (read_epub L b4 = Inl e4 \<longrightarrow> extract_epub_text L (Bytes b4) = None)"
  by (auto simp: extract_pdf_text_def extract_epub_text_def epub_items_text_blank strip_def)

theorem extract_nothing_is_success_witness:
  "PdfReader (sample_library script_page) ''%PDF-empty'' = Inr []
   \<and> extract_pdf_text (sample_library script_page) (Bytes ''%PDF-empty'') = Some []
   \<and> PdfReader (sample_library script_page) ''%PDF-broken''
       = Inl (LibraryError ''EOF marker not found'')
   \<and> extract_pdf_text (sample_library script_page) (Bytes ''%PDF-broken'') = None
   \<and> read_epub (sample_library script_page) ''PK-blank-epub''
       = Inr [Item 2 (Inr ''body {}''), Item ITEM_DOCUMENT (Inr ''<script>x</script>'')]
   \<and> list_all (item_without_text (sample_library script_page))
       [Item 2 (Inr ''body {}''), Item ITEM_DOCUMENT (Inr ''<script>x</script>'')]
   \<and> extract_epub_text (sample_library script_page) (Bytes ''PK-blank-epub'') = Some []
   \<and> read_epub (sample_library script_page) ''PK-broken''
       = Inl (LibraryError ''File is not a zip file'')
   \<and> extract_epub_text (sample_library script_page) (Bytes ''PK-broken'') = None"
proof -
  have h1: "PdfReader (sample_library script_page) ''%PDF-empty'' = Inr []"
    by code_simp
  have h2: "PdfReader (sample_library script_page) ''%PDF-broken''
              = Inl (LibraryError ''EOF marker not found'')"
    by code_simp
  have h3: "read_epub (sample_library script_page) ''PK-blank-epub''
              = Inr [Item 2 (Inr ''body {}''), Item ITEM_DOCUMENT (Inr ''<script>x</script>'')]"
    by code_simp
  have h3': "list_all (item_without_text (sample_library script_page))
       [Item 2 (Inr ''body {}''), Item ITEM_DOCUMENT (Inr ''<script>x</script>'')]"
    by code_simp
  have h4: "read_epub (sample_library script_page) ''PK-broken''
              = Inl (LibraryError ''File is not a zip file'')"
    by code_simp
  show ?thesis
    using h1 h2 h3 h3' h4
      extract_nothing_is_success
        [of "sample_library script_page" "''%PDF-empty''" "''%PDF-broken''"
            "LibraryError ''EOF marker not found''" "''PK-blank-epub''"
            "[Item 2 (Inr ''body {}''), Item ITEM_DOCUMENT (Inr ''<script>x</script>'')]"
            "''PK-broken''" "LibraryError ''File is not a zip file''"]
    by simp
qed

section \<open>The download and the tool\<close>

text \<open>
  Claim C1, as stated, fails on the code. A download that ends in the redirect to
  \<open>federation.eams.army.mil\<close> gives a string that starts with \<open>CAC_REQUIRED:\<close>, not
  with \<open>ACCESS_RESTRICTED:\<close>; and a failure whose description names that host
  without the word \<open>redirect\<close> gives the generic result \<open>None\<close>.
\<close>

theorem access_restricted_counterexample:
  "http_get (sample_library script_page) restricted_url = Inl redirect_error
   \<and> contains ''federation.eams.army'' (lower redirect_error)
   \<and> get_document_text_from_url (sample_library script_page) restricted_url None
       = Some ''CAC_REQUIRED: This document requires Common Access Card (CAC) authentication''
   \<and> \<not> prefix ''ACCESS_RESTRICTED:''
         ''CAC_REQUIRED: This document requires Common Access Card (CAC) authentication''
   \<and> http_get (sample_library script_page) unreachable_url = Inl connect_error
   \<and> contains ''federation.eams.army'' (lower connect_error)
   \<and> get_document_text_from_url (sample_library script_page) unreachable_url None = None"
  by code_simp

text \<open>
  Claim C1, amended. For every URL whose download attempt ends in a transport
  failure whose description, in lowercase, contains both \<open>redirect\<close> and
  \<open>federation.eams.army\<close>, \<open>get_document_text_from_url\<close> returns a string that
  starts with \<open>CAC_REQUIRED:\<close>; for every other transport failure it returns the
  generic failure result \<open>None\<close>.
\<close>

theorem cac_required_on_redirect:
  assumes "http_get L doc_url = Inl e"
  shows "(is_cac_error e \<longrightarrow>
            (\<exists>s. get_document_text_from_url L doc_url fmt = Some s \<and> prefix ''CAC_REQUIRED:'' s))
         \<and> (\<not> is_cac_error e \<longrightarrow> get_document_text_from_url L doc_url fmt = None)"
  using assms by (simp add: get_document_text_from_url_def cac_required_def)

theorem cac_required_on_redirect_witness:
  "http_get (sample_library script_page) restricted_url = Inl redirect_error
   \<and> is_cac_error redirect_error
   \<and> (\<exists>s. get_document_text_from_url (sample_library script_page) restricted_url None = Some s
          \<and> prefix ''CAC_REQUIRED:'' s)
   \<and> http_get (sample_library script_page) unreachable_url = Inl connect_error
   \<and> \<not> is_cac_error connect_error
   \<and> get_document_text_from_url (sample_library script_page) unreachable_url None = None"
proof -
  have h1: "http_get (sample_library script_page) restricted_url = Inl redirect_error"
    by code_simp
  have c1: "is_cac_error redirect_error"
    by code_simp
  have h2: "http_get (sample_library script_page) unreachable_url = Inl connect_error"
    by code_simp
  have c2: "\<not> is_cac_error connect_error"
    by code_simp
  show ?thesis
    using h1 c1 h2 c2 cac_required_on_redirect [OF h1, of None]
      cac_required_on_redirect [OF h2, of None]
    by blast
qed

text \<open>
  Claim C9. When the download succeeds and the extraction returns the empty
  string, \<open>get_publication\<close> returns the fixed failure message, the message it also
  returns when the extraction fails.
\<close>

theorem get_publication_empty_text:
  "(http_get L u = Inr content
      \<and> extract_document_text L (Bytes content) (filetype_of u) (Some u) = Some [] \<longrightarrow>
      get_publication L u = failure_message)
   \<and> (http_get L u' = Inr content'
      \<and> extract_document_text L (Bytes content') (filetype_of u') (Some u') = None \<longrightarrow>
      get_publication L u' = failure_message)"
  by (simp add: get_publication_def get_document_text_from_url_def Let_def)

theorem get_publication_empty_text_witness:
  "http_get (sample_library script_page) empty_pdf_url = Inr ''%PDF-empty''
   \<and> extract_document_text (sample_library script_page) (Bytes ''%PDF-empty'')
       (filetype_of empty_pdf_url) (Some empty_pdf_url) = Some []
   \<and> get_publication (sample_library script_page) empty_pdf_url = failure_message
   \<and> http_get (sample_library script_page) broken_pdf_url = Inr ''%PDF-broken''
   \<and> extract_document_text (sample_library script_page) (Bytes ''%PDF-broken'')
       (filetype_of broken_pdf_url) (Some broken_pdf_url) = None
   \<and> get_publication (sample_library script_page) broken_pdf_url = failure_message"
proof -
  have h1: "http_get (sample_library script_page) empty_pdf_url = Inr ''%PDF-empty''"
    by code_simp
  have e1: "extract_document_text (sample_library script_page) (Bytes ''%PDF-empty'')
       (filetype_of empty_pdf_url) (Some empty_pdf_url) = Some []"
    by code_simp
  have h2: "http_get (sample_library script_page) broken_pdf_url = Inr ''%PDF-broken''"
    by code_simp
  have e2: "extract_document_text (sample_library script_page) (Bytes ''%PDF-broken'')
       (filetype_of broken_pdf_url) (Some broken_pdf_url) = None"
    by code_simp
  show ?thesis
    using h1 e1 h2 e2
      get_publication_empty_text
        [of "sample_library script_page" empty_pdf_url "''%PDF-empty''"
            broken_pdf_url "''%PDF-broken''"]
    by simp
qed


end
